theory Spec2Isabelle
  imports Main "HOL-Library.Word"
begin

section \<open>The ECDSA-P384 signing helper (ecc\_sign\_helper.py)\<close>

text \<open>
  The program is a one-shot command-line wrapper: it picks a key file, reads a digest
  from standard input (hex text) or from a file (raw bytes), asks the cryptography
  library for a signature and writes it to standard output or back into the file.

  The embedding makes the process's surroundings explicit:
  \<^item> the file system is a map from path names to nodes (a regular file with its bytes,
    or a directory); two different path names are two different files;
  \<^item> standard input is the text not yet read, standard output and standard error are
    the lists of chunks written so far;
  \<^item> every \<open>raise\<close> and every \<open>sys.exit\<close> is a value \<open>Inl e\<close> of the result;
  \<^item> the two calls into the cryptography library (\<open>load_pem_private_key\<close> and
    \<open>private_key.sign\<close>) are parameters: their code is not part of the program.
  Text is a \<open>string\<close>: each \<open>char\<close> stands for the code point of the same number
  (U+0000 to U+00FF). Line handling is that of a POSIX system, where
  \<open>sys.stdin\<close> ends a line at \<open>\n\<close> only. Opening a file fails when it is missing
  or is a directory; permissions, links between path names and device errors are left
  out, and so are signals.
\<close>

subsection \<open>Data\<close>

type_synonym byte = "8 word"

type_synonym path = string

datatype node = File "byte list" | Dir

type_synonym filesystem = "path \<rightharpoonup> node"

text \<open>
  What the program can raise. \<open>SystemExit\<close> is \<open>sys.exit\<close>; \<open>LibraryError\<close> is any
  exception raised inside one of the two cryptography calls, with its text.
\<close>

datatype exn =
    SystemExit int
  | FileNotFoundError path
  | IsADirectoryError path
  | ValueError string
  | Binascii_Error string
  | LibraryError string

text \<open>
  A chunk of output: text written by the program itself, the usage-and-error message or
  the help text printed by \<open>argparse\<close>, or the traceback the interpreter prints for an
  exception nobody caught.
\<close>

datatype chunk =
    Text string
  | Usage string
  | Help
  | Traceback exn

record proc =
  files :: filesystem
  stdin :: string
  stdout :: "chunk list"
  stderr :: "chunk list"
  entropy :: nat

text \<open>
  The cryptography library, as the program calls it:
  \<open>serialization.load_pem_private_key(data, password=None)\<close> and
  \<open>private_key.sign(digest, ec.ECDSA(Prehashed(hashes.SHA384())))\<close>. Each returns
  its value or raises (\<open>Inl\<close> with the text of the exception). Signing draws on the
  system's randomness, the third argument.
\<close>

record 'k cryptography =
  load_pem_private_key :: "byte list \<Rightarrow> string + 'k"
  sign_prehashed_sha384 :: "'k \<Rightarrow> byte list \<Rightarrow> nat \<Rightarrow> string + byte list"

text \<open>
  The namespace \<open>parser.parse_args()\<close> returns for the three options the parser
  declares: \<open>--key\<close> (required, a string), \<open>--by-file\<close> (\<open>store_true\<close>) and
  \<open>--input\<close> (a string, \<open>None\<close> when absent).
\<close>

record args =
  key :: string
  by_file :: bool
  input :: "string option"

text \<open>
  What \<open>parser.parse_args()\<close> does with the command line: it exits with a usage error
  (status 2, message on standard error), prints the help and exits with status 0
  (\<open>-h\<close>), or returns the namespace.
\<close>

datatype cmdline =
    Argparse_Error string
  | Argparse_Help
  | Namespace args

subsection \<open>Standard-library functions the program calls\<close>

definition newline :: char where
  "newline = CHR 0x0A"

definition apostrophe :: char where
  "apostrophe = CHR 0x27"

text \<open>\<open>sys.stdin.readline()\<close>: the text up to and including the first newline, or all
  of it when there is none; the rest stays unread.\<close>

definition readline :: "string \<Rightarrow> string \<times> string" where
  "readline s =
     (case dropWhile (\<lambda>c. c \<noteq> newline) s of
        [] \<Rightarrow> (s, [])
      | _ # rest \<Rightarrow> (takeWhile (\<lambda>c. c \<noteq> newline) s @ [newline], rest))"

text \<open>\<open>str.isspace\<close> on one character, for the code points below 256.\<close>

definition isspace :: "char \<Rightarrow> bool" where
  "isspace c =
     (let n = (of_char c :: nat)
      in (9 \<le> n \<and> n \<le> 13) \<or> (28 \<le> n \<and> n \<le> 32) \<or> n = 133 \<or> n = 160)"

text \<open>\<open>str.strip()\<close>: whitespace removed at both ends.\<close>

definition strip :: "string \<Rightarrow> string" where
  "strip s = rev (dropWhile isspace (rev (dropWhile isspace s)))"

text \<open>The value of a hexadecimal digit, either case.\<close>

definition digit_value :: "char \<Rightarrow> nat option" where
  "digit_value c =
     (let n = (of_char c :: nat)
      in if 48 \<le> n \<and> n \<le> 57 then Some (n - 48)
         else if 97 \<le> n \<and> n \<le> 102 then Some (n - 87)
         else if 65 \<le> n \<and> n \<le> 70 then Some (n - 55)
         else None)"

text \<open>The loop of \<open>binascii.unhexlify\<close> over pairs of digits; \<open>None\<close> at the first
  character that is not a hexadecimal digit.\<close>

fun unhex_pairs :: "string \<Rightarrow> byte list option" where
  "unhex_pairs [] = Some []"
| "unhex_pairs [c] = None"
| "unhex_pairs (c # d # s) =
     (case (digit_value c, digit_value d) of
        (Some hi, Some lo) \<Rightarrow>
          (case unhex_pairs s of
             None \<Rightarrow> None
           | Some bs \<Rightarrow> Some (word_of_nat (16 * hi + lo) # bs))
      | _ \<Rightarrow> None)"

text \<open>\<open>binascii.unhexlify\<close> of a \<open>str\<close>: a non-ASCII character is a \<open>ValueError\<close>,
  then an odd length and then a non-digit are a \<open>binascii.Error\<close>.\<close>

definition unhexlify :: "string \<Rightarrow> exn + byte list" where
  "unhexlify s =
     (if list_ex (\<lambda>c. 128 \<le> (of_char c :: nat)) s
      then Inl (ValueError ''string argument should contain only ASCII characters'')
      else if odd (length s) then Inl (Binascii_Error ''Odd-length string'')
      else case unhex_pairs s of
             None \<Rightarrow> Inl (Binascii_Error ''Non-hexadecimal digit found'')
           | Some bs \<Rightarrow> Inr bs)"

definition hex_digit :: "nat \<Rightarrow> char" where
  "hex_digit n = ''0123456789abcdef'' ! n"

text \<open>\<open>binascii.hexlify(b).decode()\<close>: two lower-case digits for each byte.\<close>

definition hexlify :: "byte list \<Rightarrow> string" where
  "hexlify bs = concat (map (\<lambda>b. [hex_digit (unat b div 16), hex_digit (unat b mod 16)]) bs)"

text \<open>\<open>os.path.exists\<close>: a file or a directory of that name.\<close>

definition os_path_exists :: "filesystem \<Rightarrow> path \<Rightarrow> bool" where
  "os_path_exists fs p = (fs p \<noteq> None)"

text \<open>\<open>open(p, "rb")\<close> followed by \<open>read()\<close>.\<close>

definition open_rb :: "filesystem \<Rightarrow> path \<Rightarrow> exn + byte list" where
  "open_rb fs p =
     (case fs p of
        None \<Rightarrow> Inl (FileNotFoundError p)
      | Some Dir \<Rightarrow> Inl (IsADirectoryError p)
      | Some (File bs) \<Rightarrow> Inr bs)"

text \<open>\<open>open(p, "wb")\<close> followed by \<open>write(bs)\<close>: the file is created or truncated
  and holds \<open>bs\<close> afterwards.\<close>

definition open_wb :: "filesystem \<Rightarrow> path \<Rightarrow> byte list \<Rightarrow> exn + filesystem" where
  "open_wb fs p bs =
     (case fs p of
        Some Dir \<Rightarrow> Inl (IsADirectoryError p)
      | _ \<Rightarrow> Inr (fs(p \<mapsto> File bs)))"

definition stderr_write :: "string \<Rightarrow> proc \<Rightarrow> proc" where
  "stderr_write s p = p\<lparr>stderr := stderr p @ [Text s]\<rparr>"

definition stdout_write :: "string \<Rightarrow> proc \<Rightarrow> proc" where
  "stdout_write s p = p\<lparr>stdout := stdout p @ [Text s]\<rparr>"

subsection \<open>The program\<close>

text \<open>\<open>sign_digest\<close> (lines 12 to 18): read the key file, load the key, sign.\<close>

definition sign_digest ::
  "'k cryptography \<Rightarrow> filesystem \<Rightarrow> nat \<Rightarrow> byte list \<Rightarrow> path \<Rightarrow> exn + byte list" where
  "sign_digest lib fs rnd digest key_path =
     (case open_rb fs key_path of
        Inl e \<Rightarrow> Inl e
      | Inr pem \<Rightarrow>
          (case load_pem_private_key lib pem of
             Inl msg \<Rightarrow> Inl (LibraryError msg)
           | Inr private_key \<Rightarrow>
               (case sign_prehashed_sha384 lib private_key digest rnd of
                  Inl msg \<Rightarrow> Inl (LibraryError msg)
                | Inr signature \<Rightarrow> Inr signature)))"

text \<open>\<open>sign_from_stdin\<close> (lines 21 to 35).\<close>

definition sign_from_stdin :: "'k cryptography \<Rightarrow> path \<Rightarrow> proc \<Rightarrow> (exn + unit) \<times> proc" where
  "sign_from_stdin lib key_path p =
     (let (line, rest) = readline (stdin p);
          digest_hex = strip line;
          p1 = p\<lparr>stdin := rest\<rparr>
      in if digest_hex = [] then
           (Inl (SystemExit 1),
            stderr_write (''Error: No digest provided via stdin'' @ [newline]) p1)
         else
           case unhexlify digest_hex of
             Inl e \<Rightarrow> (Inl e, p1)
           | Inr digest \<Rightarrow>
               (let p2 = stderr_write
                      (''[STDIN MODE] Signing digest:'' @ [newline] @ '' '' @ digest_hex @ [newline]) p1
                in (case sign_digest lib (files p2) (entropy p2) digest key_path of
                      Inl e \<Rightarrow> (Inl e, p2)
                    | Inr signature \<Rightarrow>
                        (let sig_hex = hexlify signature;
                             p3 = stderr_write
                               (''Signature generated (DER hex): '' @ sig_hex @ [newline]) p2
                         in (Inr (), stdout_write (sig_hex @ [newline]) p3)))))"

text \<open>\<open>sign_by_file\<close> (lines 38 to 56).\<close>

definition sign_by_file ::
  "'k cryptography \<Rightarrow> path \<Rightarrow> path \<Rightarrow> proc \<Rightarrow> (exn + unit) \<times> proc" where
  "sign_by_file lib key_path input_path p =
     (if \<not> os_path_exists (files p) input_path then
        (Inl (SystemExit 1),
         stderr_write (''Error: input file '' @ [apostrophe] @ input_path @ [apostrophe]
                       @ '' does not exist'' @ [newline]) p)
      else
        case open_rb (files p) input_path of
          Inl e \<Rightarrow> (Inl e, p)
        | Inr digest \<Rightarrow>
            (let p1 = stderr_write
                   (''[FILE MODE] Signing digest from file: '' @ input_path @ [newline]) p
             in (case sign_digest lib (files p1) (entropy p1) digest key_path of
                   Inl e \<Rightarrow> (Inl e, p1)
                 | Inr signature \<Rightarrow>
                     (case open_wb (files p1) input_path signature of
                        Inl e \<Rightarrow> (Inl e, p1)
                      | Inr fs' \<Rightarrow>
                          (Inr (),
                           stderr_write
                             (''Signature written back to file: '' @ input_path @ [newline])
                             (p1\<lparr>files := fs'\<rparr>))))))"

text \<open>The key table of \<open>main\<close> (lines 69 to 75); \<open>None\<close> is the \<open>else\<close> branch.\<close>

definition select_key :: "string \<Rightarrow> path option" where
  "select_key k =
     (if k = ''fw'' then Some ''key/ast2700a1-default/own-fw-ecc-prvk.pem''
      else if k = ''man'' then Some ''key/ast2700a1-default/own-man-ecc-prvk.pem''
      else None)"

text \<open>The choice of flow in \<open>main\<close> (lines 80 to 87). \<open>not args.input\<close> holds for
  \<open>None\<close> and for the empty string.\<close>

definition choose_flow :: "'k cryptography \<Rightarrow> path \<Rightarrow> args \<Rightarrow> proc \<Rightarrow> (exn + unit) \<times> proc" where
  "choose_flow lib key_path a p =
     (if by_file a then
        (case input a of
           None \<Rightarrow>
             (Inl (SystemExit 1),
              stderr_write (''Error: --input <path> is required when using --by-file'' @ [newline]) p)
         | Some input_path \<Rightarrow>
             if input_path = [] then
               (Inl (SystemExit 1),
                stderr_write (''Error: --input <path> is required when using --by-file'' @ [newline]) p)
             else
               sign_by_file lib key_path input_path
                 (stderr_write (''Using input file: '' @ input_path @ [newline]) p))
      else sign_from_stdin lib key_path p)"

text \<open>\<open>main\<close> (lines 59 to 87).\<close>

definition main :: "'k cryptography \<Rightarrow> cmdline \<Rightarrow> proc \<Rightarrow> (exn + unit) \<times> proc" where
  "main lib cmd p =
     (case cmd of
        Argparse_Error msg \<Rightarrow> (Inl (SystemExit 2), p\<lparr>stderr := stderr p @ [Usage msg]\<rparr>)
      | Argparse_Help \<Rightarrow> (Inl (SystemExit 0), p\<lparr>stdout := stdout p @ [Help]\<rparr>)
      | Namespace a \<Rightarrow>
          (case select_key (key a) of
             None \<Rightarrow>
               (Inl (SystemExit 1),
                stderr_write (''Unknown key type: '' @ key a @ [newline]) p)
           | Some key_path \<Rightarrow> choose_flow lib key_path a p))"

text \<open>
  Running the script: \<open>main()\<close> under the interpreter. A normal return is exit status
  0, \<open>sys.exit(n)\<close> is status \<open>n\<close>, and any other exception is printed as a traceback
  on standard error with status 1.
\<close>

definition run :: "'k cryptography \<Rightarrow> cmdline \<Rightarrow> proc \<Rightarrow> int \<times> proc" where
  "run lib cmd p =
     (case main lib cmd p of
        (Inr _, q) \<Rightarrow> (0, q)
      | (Inl (SystemExit n), q) \<Rightarrow> (n, q)
      | (Inl e, q) \<Rightarrow> (1, q\<lparr>stderr := stderr q @ [Traceback e]\<rparr>))"

subsection \<open>Vocabulary of the specification\<close>

text \<open>
  Valid hexadecimal, in the specification's words: an even number of characters, each of
  them a hexadecimal digit. It is compared with what \<open>unhexlify\<close> accepts below.
\<close>

definition is_hex_char :: "char \<Rightarrow> bool" where
  "is_hex_char c = (c \<in> set ''0123456789abcdefABCDEF'')"

definition valid_hex :: "string \<Rightarrow> bool" where
  "valid_hex s = (even (length s) \<and> list_all is_hex_char s)"


subsection \<open>A stand-in library and a small file system, for evaluation\<close>

text \<open>
  The theorems below hold for every library. To evaluate the program on concrete inputs
  a library is needed all the same: \<open>demo_lib\<close> loads any non-empty key file and
  returns five bytes made of its arguments as the signature. With \<open>strict\<close> it refuses a
  digest that is not 48 bytes long, as the real routine does; without, it signs a digest
  of any length.
\<close>

definition demo_lib :: "bool \<Rightarrow> nat cryptography" where
  "demo_lib strict =
     \<lparr>load_pem_private_key =
        (\<lambda>pem. if pem = [] then Inl ''Could not deserialize key data.'' else Inr (length pem)),
      sign_prehashed_sha384 =
        (\<lambda>k d rnd.
           if strict \<and> length d \<noteq> 48
           then Inl ''The provided data must be the same length as the digest size.''
           else Inr (0x30 # word_of_nat k # word_of_nat rnd # take 2 d))\<rparr>"

definition demo_files :: filesystem where
  "demo_files =
     [''key/ast2700a1-default/own-fw-ecc-prvk.pem'' \<mapsto> File [0x2D, 0x2D],
      ''digest.bin'' \<mapsto> File (replicate 48 0x11),
      ''short.bin'' \<mapsto> File [1, 2, 3],
      ''other.bin'' \<mapsto> File [9],
      ''empty.bin'' \<mapsto> File [],
      ''out'' \<mapsto> Dir]"

definition demo_proc :: "string \<Rightarrow> proc" where
  "demo_proc s = \<lparr>files = demo_files, stdin = s, stdout = [], stderr = [], entropy = 7\<rparr>"

definition fw_stdin :: cmdline where
  "fw_stdin = Namespace \<lparr>key = ''fw'', by_file = False, input = None\<rparr>"

definition fw_file :: "string \<Rightarrow> cmdline" where
  "fw_file ip = Namespace \<lparr>key = ''fw'', by_file = True, input = Some ip\<rparr>"

section \<open>Properties\<close>

subsection \<open>Auxiliary facts\<close>

lemma digit_value_all: "\<forall>c::char. (digit_value c \<noteq> None) = is_hex_char c"
  by code_simp


lemma digit_value_None: "(digit_value c = None) = (\<not> is_hex_char c)"
  using digit_value_all by blast

lemma digit_value_Some: "digit_value c = Some v \<Longrightarrow> is_hex_char c"
  using digit_value_None [of c] by simp

lemma unhex_pairs_None_iff:
  "(unhex_pairs s = None) = (odd (length s) \<or> \<not> list_all is_hex_char s)"
proof (induction s rule: unhex_pairs.induct)
  case 1
  show ?case by simp
next
  case (2 c)
  show ?case by simp
next
  case (3 c d s)
  show ?case
  proof (cases "digit_value c")
    case None
    then show ?thesis by (simp add: digit_value_None [symmetric])
  next
    case (Some hi)
    note c = this
    show ?thesis
    proof (cases "digit_value d")
      case None
      then show ?thesis using c by (simp add: digit_value_None [symmetric])
    next
      case (Some lo)
      then show ?thesis
        using c 3 digit_value_Some [OF c] digit_value_Some [OF Some]
        by (auto split: option.splits)
    qed
  qed
qed



lemma unhexlify_invalid:
  "\<not> valid_hex s \<Longrightarrow> \<exists>m. unhexlify s = Inl (ValueError m) \<or> unhexlify s = Inl (Binascii_Error m)"
proof -
  assume "\<not> valid_hex s"
  then have "odd (length s) \<or> unhex_pairs s = None"
    by (auto simp: unhex_pairs_None_iff valid_hex_def)
  then show ?thesis
    by (auto simp: unhexlify_def)
qed

lemma unhexlify_Inl: "unhexlify s = Inl e \<Longrightarrow> \<exists>m. e = ValueError m \<or> e = Binascii_Error m"
  by (auto simp: unhexlify_def split: if_splits option.splits)

text \<open>\<open>unhexlify\<close> undoes \<open>hexlify\<close>: the text on standard output decodes to the
  signature bytes.\<close>

lemma hex_digit_all:
  "list_all (\<lambda>n. digit_value (hex_digit n) = Some n \<and> \<not> 128 \<le> (of_char (hex_digit n) :: nat))
     [0..<16]"
  by code_simp

lemma hex_digit_value: "n < 16 \<Longrightarrow> digit_value (hex_digit n) = Some n"
  using hex_digit_all by (simp add: list_all_iff)

lemma hex_digit_ascii: "n < 16 \<Longrightarrow> \<not> 128 \<le> (of_char (hex_digit n) :: nat)"
  using hex_digit_all by (simp add: list_all_iff)

lemma byte_nibbles: "unat (b :: byte) div 16 < 16"
proof -
  have "unat b < 2 ^ 8"
    using unsigned_less [of b] by simp
  then show ?thesis by simp
qed

lemma hexlify_Cons:
  "hexlify (b # bs) = hex_digit (unat b div 16) # hex_digit (unat b mod 16) # hexlify bs"
  by (simp add: hexlify_def)

lemma unhex_pairs_hexlify: "unhex_pairs (hexlify bs) = Some bs"
proof (induction bs)
  case Nil
  show ?case by (simp add: hexlify_def)
next
  case (Cons b bs)
  have "word_of_nat (16 * (unat b div 16) + unat b mod 16) = b"
    by simp
  then show ?case
    using Cons by (simp add: hexlify_Cons hex_digit_value byte_nibbles)
qed

lemma length_hexlify: "length (hexlify bs) = 2 * length bs"
  by (induction bs) (simp_all add: hexlify_Cons, simp add: hexlify_def)

lemma hexlify_ascii: "\<not> list_ex (\<lambda>c. 128 \<le> (of_char c :: nat)) (hexlify bs)"
  by (induction bs) (simp_all add: hexlify_Cons hex_digit_ascii byte_nibbles, simp add: hexlify_def)

lemma unhexlify_hexlify: "unhexlify (hexlify bs) = Inr bs"
  by (simp add: unhexlify_def hexlify_ascii length_hexlify unhex_pairs_hexlify)









lemma sign_digest_Inl:
  "sign_digest lib fs rnd d kp = Inl e \<Longrightarrow>
   e = FileNotFoundError kp \<or> e = IsADirectoryError kp \<or> (\<exists>m. e = LibraryError m)"
  by (auto simp: sign_digest_def open_rb_def split: sum.splits option.splits node.splits)

lemma run_return: "main lib cmd p = (Inr u, q) \<Longrightarrow> run lib cmd p = (0, q)"
  by (simp add: run_def)

lemma run_exit: "main lib cmd p = (Inl (SystemExit n), q) \<Longrightarrow> run lib cmd p = (n, q)"
  by (simp add: run_def)

lemma run_uncaught:
  "main lib cmd p = (Inl e, q) \<Longrightarrow> \<forall>n. e \<noteq> SystemExit n \<Longrightarrow>
   run lib cmd p = (1, q\<lparr>stderr := stderr q @ [Traceback e]\<rparr>)"
  by (cases e) (auto simp: run_def)

lemma main_stdin_mode:
  "select_key (key a) = Some kp \<Longrightarrow> \<not> by_file a \<Longrightarrow>
   main lib (Namespace a) p = sign_from_stdin lib kp p"
  by (simp add: main_def choose_flow_def)

lemma main_file_mode:
  "select_key (key a) = Some kp \<Longrightarrow> by_file a \<Longrightarrow> input a = Some ip \<Longrightarrow> ip \<noteq> [] \<Longrightarrow>
   main lib (Namespace a) p =
     sign_by_file lib kp ip (stderr_write (''Using input file: '' @ ip @ [newline]) p)"
  by (simp add: main_def choose_flow_def)

lemma sign_digest_not_exit: "sign_digest lib fs rnd d kp = Inl e \<Longrightarrow> \<forall>n. e \<noteq> SystemExit n"
  using sign_digest_Inl by fastforce

lemma unhexlify_not_exit: "unhexlify s = Inl e \<Longrightarrow> \<forall>n. e \<noteq> SystemExit n"
  using unhexlify_Inl by fastforce

lemma run_file_mode:
  assumes "select_key (key a) = Some kp" "by_file a" "input a = Some ip" "ip \<noteq> []"
  shows "run lib (Namespace a) p =
    (case files p ip of
       None \<Rightarrow>
         (1, p\<lparr>stderr := stderr p @
               [Text (''Using input file: '' @ ip @ [newline]),
                Text (''Error: input file '' @ [apostrophe] @ ip @ [apostrophe]
                      @ '' does not exist'' @ [newline])]\<rparr>)
     | Some Dir \<Rightarrow>
         (1, p\<lparr>stderr := stderr p @
               [Text (''Using input file: '' @ ip @ [newline]),
                Traceback (IsADirectoryError ip)]\<rparr>)
     | Some (File d) \<Rightarrow>
         (case sign_digest lib (files p) (entropy p) d kp of
            Inl e \<Rightarrow>
              (1, p\<lparr>stderr := stderr p @
                    [Text (''Using input file: '' @ ip @ [newline]),
                     Text (''[FILE MODE] Signing digest from file: '' @ ip @ [newline]),
                     Traceback e]\<rparr>)
          | Inr sg \<Rightarrow>
              (0, p\<lparr>files := (files p)(ip \<mapsto> File sg),
                    stderr := stderr p @
                    [Text (''Using input file: '' @ ip @ [newline]),
                     Text (''[FILE MODE] Signing digest from file: '' @ ip @ [newline]),
                     Text (''Signature written back to file: '' @ ip @ [newline])]\<rparr>)))"
proof (cases "files p ip")
  case None
  then have "main lib (Namespace a) p =
      (Inl (SystemExit 1), p\<lparr>stderr := stderr p @
               [Text (''Using input file: '' @ ip @ [newline]),
                Text (''Error: input file '' @ [apostrophe] @ ip @ [apostrophe]
                      @ '' does not exist'' @ [newline])]\<rparr>)"
    by (simp add: main_file_mode [OF assms] sign_by_file_def os_path_exists_def stderr_write_def)
  then show ?thesis using None by (simp add: run_exit)
next
  case (Some nd)
  show ?thesis
  proof (cases nd)
    case Dir
    with Some have "main lib (Namespace a) p =
      (Inl (IsADirectoryError ip), p\<lparr>stderr := stderr p @
               [Text (''Using input file: '' @ ip @ [newline])]\<rparr>)"
      by (simp add: main_file_mode [OF assms] sign_by_file_def os_path_exists_def
          open_rb_def stderr_write_def)
    then show ?thesis using Some Dir by (simp add: run_uncaught)
  next
    case (File d)
    show ?thesis
    proof (cases "sign_digest lib (files p) (entropy p) d kp")
      case (Inl e)
      with Some File have "main lib (Namespace a) p =
        (Inl e, p\<lparr>stderr := stderr p @
                    [Text (''Using input file: '' @ ip @ [newline]),
                     Text (''[FILE MODE] Signing digest from file: '' @ ip @ [newline])]\<rparr>)"
        by (simp add: main_file_mode [OF assms] sign_by_file_def os_path_exists_def
            open_rb_def stderr_write_def)
      then show ?thesis
        using Some File Inl sign_digest_not_exit [OF Inl] by (simp add: run_uncaught)
    next
      case (Inr sg)
      with Some File have "main lib (Namespace a) p =
        (Inr (), p\<lparr>files := (files p)(ip \<mapsto> File sg),
                    stderr := stderr p @
                    [Text (''Using input file: '' @ ip @ [newline]),
                     Text (''[FILE MODE] Signing digest from file: '' @ ip @ [newline]),
                     Text (''Signature written back to file: '' @ ip @ [newline])]\<rparr>)"
        by (simp add: main_file_mode [OF assms] sign_by_file_def os_path_exists_def
            open_rb_def open_wb_def stderr_write_def)
      then show ?thesis using Some File Inr by (simp add: run_return)
    qed
  qed
qed

lemma run_stdin_mode:
  assumes "select_key (key a) = Some kp" "\<not> by_file a" "readline (stdin p) = (line, rest)"
  shows "run lib (Namespace a) p =
    (if strip line = [] then
       (1, p\<lparr>stdin := rest,
             stderr := stderr p @ [Text (''Error: No digest provided via stdin'' @ [newline])]\<rparr>)
     else
       case unhexlify (strip line) of
         Inl e \<Rightarrow> (1, p\<lparr>stdin := rest, stderr := stderr p @ [Traceback e]\<rparr>)
       | Inr digest \<Rightarrow>
           (case sign_digest lib (files p) (entropy p) digest kp of
              Inl e \<Rightarrow>
                (1, p\<lparr>stdin := rest,
                      stderr := stderr p @
                        [Text (''[STDIN MODE] Signing digest:'' @ [newline] @ '' ''
                               @ strip line @ [newline]),
                         Traceback e]\<rparr>)
            | Inr sg \<Rightarrow>
                (0, p\<lparr>stdin := rest,
                      stdout := stdout p @ [Text (hexlify sg @ [newline])],
                      stderr := stderr p @
                        [Text (''[STDIN MODE] Signing digest:'' @ [newline] @ '' ''
                               @ strip line @ [newline]),
                         Text (''Signature generated (DER hex): '' @ hexlify sg @ [newline])]\<rparr>)))"
proof (cases "strip line = []")
  case True
  then have "main lib (Namespace a) p =
      (Inl (SystemExit 1), p\<lparr>stdin := rest,
             stderr := stderr p @ [Text (''Error: No digest provided via stdin'' @ [newline])]\<rparr>)"
    using assms(3) by (simp add: main_stdin_mode [OF assms(1,2)] sign_from_stdin_def stderr_write_def)
  then show ?thesis using True by (simp add: run_exit)
next
  case False
  note ne = this
  show ?thesis
  proof (cases "unhexlify (strip line)")
    case (Inl e)
    then have "main lib (Namespace a) p = (Inl e, p\<lparr>stdin := rest\<rparr>)"
      using assms(3) ne
      by (simp add: main_stdin_mode [OF assms(1,2)] sign_from_stdin_def)
    then show ?thesis
      using ne Inl unhexlify_not_exit [OF Inl] by (simp add: run_uncaught)
  next
    case (Inr digest)
    note dg = this
    show ?thesis
    proof (cases "sign_digest lib (files p) (entropy p) digest kp")
      case (Inl e)
      then have "main lib (Namespace a) p =
        (Inl e, p\<lparr>stdin := rest,
                      stderr := stderr p @
                        [Text (''[STDIN MODE] Signing digest:'' @ [newline] @ '' ''
                               @ strip line @ [newline])]\<rparr>)"
        using assms(3) ne dg
        by (simp add: main_stdin_mode [OF assms(1,2)] sign_from_stdin_def stderr_write_def)
      then show ?thesis
        using ne dg Inl sign_digest_not_exit [OF Inl] by (simp add: run_uncaught)
    next
      case (Inr sg)
      then have "main lib (Namespace a) p =
        (Inr (), p\<lparr>stdin := rest,
                      stdout := stdout p @ [Text (hexlify sg @ [newline])],
                      stderr := stderr p @
                        [Text (''[STDIN MODE] Signing digest:'' @ [newline] @ '' ''
                               @ strip line @ [newline]),
                         Text (''Signature generated (DER hex): '' @ hexlify sg @ [newline])]\<rparr>)"
        using assms(3) ne dg
        by (simp add: main_stdin_mode [OF assms(1,2)] sign_from_stdin_def stderr_write_def
            stdout_write_def Let_def)
      then show ?thesis using ne dg Inr by (simp add: run_return)
    qed
  qed
qed

lemma select_key_fw:
  "select_key (key \<lparr>key = ''fw'', by_file = b, input = i\<rparr>) =
     Some ''key/ast2700a1-default/own-fw-ecc-prvk.pem''"
  by (simp add: select_key_def)

lemma select_key_man:
  "select_key (key \<lparr>key = ''man'', by_file = b, input = i\<rparr>) =
     Some ''key/ast2700a1-default/own-man-ecc-prvk.pem''"
  by (simp add: select_key_def)



lemma run_unknown_key:
  "select_key (key a) = None \<Longrightarrow>
   run lib (Namespace a) p =
     (1, p\<lparr>stderr := stderr p @ [Text (''Unknown key type: '' @ key a @ [newline])]\<rparr>)"
  by (simp add: run_def main_def stderr_write_def)

lemma run_no_input:
  "select_key (key a) = Some kp \<Longrightarrow> by_file a \<Longrightarrow> input a = None \<or> input a = Some [] \<Longrightarrow>
   run lib (Namespace a) p =
     (1, p\<lparr>stderr := stderr p @
           [Text (''Error: --input <path> is required when using --by-file'' @ [newline])]\<rparr>)"
  by (auto simp: run_def main_def choose_flow_def stderr_write_def)

lemma sign_digest_no_key:
  "fs kp = None \<Longrightarrow> sign_digest lib fs rnd d kp = Inl (FileNotFoundError kp)"
  by (simp add: sign_digest_def open_rb_def)

lemma sign_digest_key_dir:
  "fs kp = Some Dir \<Longrightarrow> sign_digest lib fs rnd d kp = Inl (IsADirectoryError kp)"
  by (simp add: sign_digest_def open_rb_def)

lemma sign_digest_bad_key:
  "fs kp = Some (File pem) \<Longrightarrow> load_pem_private_key lib pem = Inl m \<Longrightarrow>
   sign_digest lib fs rnd d kp = Inl (LibraryError m)"
  by (simp add: sign_digest_def open_rb_def)

lemma sign_digest_loaded:
  "fs kp = Some (File pem) \<Longrightarrow> load_pem_private_key lib pem = Inr k \<Longrightarrow>
   sign_digest lib fs rnd d kp =
     (case sign_prehashed_sha384 lib k d rnd of
        Inl m \<Rightarrow> Inl (LibraryError m)
      | Inr sg \<Rightarrow> Inr sg)"
  by (simp add: sign_digest_def open_rb_def split: sum.splits)

text \<open>
  What \<open>sign_digest\<close> returns is what the library's signing routine returned for the
  key loaded from the key file and for the digest it was given, unchanged.
\<close>

lemma sign_digest_Inr:
  "sign_digest lib fs rnd d kp = Inr sg \<Longrightarrow>
   \<exists>pem k. fs kp = Some (File pem) \<and> load_pem_private_key lib pem = Inr k
     \<and> sign_prehashed_sha384 lib k d rnd = Inr sg"
  by (auto simp: sign_digest_def open_rb_def split: sum.splits option.splits node.splits)

subsection \<open>Two evaluations on the small file system\<close>

lemma demo_run_man_digest:
  "run (demo_lib True) (Namespace \<lparr>key = ''man'', by_file = True, input = Some ''digest.bin''\<rparr>)
     (demo_proc []) =
   (1, (demo_proc [])
         \<lparr>stderr := [Text (''Using input file: digest.bin'' @ [newline]),
                     Text (''[FILE MODE] Signing digest from file: digest.bin'' @ [newline]),
                     Traceback (FileNotFoundError
                       ''key/ast2700a1-default/own-man-ecc-prvk.pem'')]\<rparr>)"
proof -
  let ?a = "\<lparr>key = ''man'', by_file = True, input = Some ''digest.bin''\<rparr>"
  have "by_file ?a" "input ?a = Some ''digest.bin''" "''digest.bin'' \<noteq> []"
    by simp_all
  note rf = run_file_mode [OF select_key_man this, of "demo_lib True" "demo_proc []"]
  have f: "files (demo_proc []) ''digest.bin'' = Some (File (replicate 48 0x11))"
    by (simp add: demo_proc_def demo_files_def)
  have k: "files (demo_proc []) ''key/ast2700a1-default/own-man-ecc-prvk.pem'' = None"
    by (simp add: demo_proc_def demo_files_def)
  show ?thesis
    unfolding rf f
    by (simp add: sign_digest_no_key [of "files (demo_proc [])", OF k]) (simp add: demo_proc_def)
qed


subsection \<open>File mode\<close>



text \<open>
  Claim C8. In file mode the input file is written only after \<open>sign_digest\<close> has
  returned a signature. When the input file is missing (or is a directory), when the
  key file is missing (or is a directory) or cannot be loaded, or when the library
  refuses to sign, the run ends with status 1 and the whole file system, the input file
  included, is as it was.
\<close>

theorem file_mode_error_keeps_files:
  assumes "select_key (key a) = Some kp" and "by_file a" and "input a = Some ip"
    and "files p ip = None \<or> files p ip = Some Dir
       \<or> files p kp = None \<or> files p kp = Some Dir
       \<or> (\<exists>pem m. files p kp = Some (File pem) \<and> load_pem_private_key lib pem = Inl m)
       \<or> (\<exists>pem k d m. files p kp = Some (File pem) \<and> load_pem_private_key lib pem = Inr k
             \<and> files p ip = Some (File d)
             \<and> sign_prehashed_sha384 lib k d (entropy p) = Inl m)"
  shows "fst (run lib (Namespace a) p) = 1
       \<and> files (snd (run lib (Namespace a) p)) = files p"
proof (cases "ip = []")
  case True
  then show ?thesis
    using assms(3) by (simp add: run_no_input [OF assms(1,2)])
next
  case False
  note rf = run_file_mode [OF assms(1-3) False, of lib p]
  show ?thesis
  proof (cases "files p ip")
    case None
    then show ?thesis by (simp add: rf)
  next
    case (Some nd)
    show ?thesis
    proof (cases nd)
      case Dir
      with Some show ?thesis by (simp add: rf)
    next
      case (File d)
      have "\<exists>e. sign_digest lib (files p) (entropy p) d kp = Inl e"
        using assms(4) Some File
        by (auto simp: sign_digest_no_key sign_digest_key_dir sign_digest_bad_key
            sign_digest_loaded)
      then show ?thesis
        using Some File by (auto simp: rf)
    qed
  qed
qed

theorem file_mode_error_keeps_files_witness:
  "fst (run (demo_lib True) (fw_file ''short.bin'') (demo_proc [])) = 1
   \<and> files (snd (run (demo_lib True) (fw_file ''short.bin'') (demo_proc []))) = demo_files
   \<and> fst (run (demo_lib True)
        (Namespace \<lparr>key = ''man'', by_file = True, input = Some ''digest.bin''\<rparr>)
        (demo_proc [])) = 1
   \<and> files (snd (run (demo_lib True)
        (Namespace \<lparr>key = ''man'', by_file = True, input = Some ''digest.bin''\<rparr>)
        (demo_proc []))) = demo_files"
proof -
  let ?a = "\<lparr>key = ''fw'', by_file = True, input = Some ''short.bin''\<rparr>"
  let ?b = "\<lparr>key = ''man'', by_file = True, input = Some ''digest.bin''\<rparr>"
  let ?p = "demo_proc []"
  let ?fw = "''key/ast2700a1-default/own-fw-ecc-prvk.pem''"
  let ?man = "''key/ast2700a1-default/own-man-ecc-prvk.pem''"
  have a2: "by_file ?a" and a3: "input ?a = Some ''short.bin''"
    by simp_all
  have "files ?p ?fw = Some (File [0x2D, 0x2D])
        \<and> load_pem_private_key (demo_lib True) [0x2D, 0x2D] = Inr 2
        \<and> files ?p ''short.bin'' = Some (File [1, 2, 3])
        \<and> sign_prehashed_sha384 (demo_lib True) 2 [1, 2, 3] (entropy ?p) =
            Inl ''The provided data must be the same length as the digest size.''"
    by (simp add: demo_proc_def demo_files_def demo_lib_def)
  then have a4: "files ?p ''short.bin'' = None \<or> files ?p ''short.bin'' = Some Dir
       \<or> files ?p ?fw = None \<or> files ?p ?fw = Some Dir
       \<or> (\<exists>pem m. files ?p ?fw = Some (File pem)
             \<and> load_pem_private_key (demo_lib True) pem = Inl m)
       \<or> (\<exists>pem k d m. files ?p ?fw = Some (File pem)
             \<and> load_pem_private_key (demo_lib True) pem = Inr k
             \<and> files ?p ''short.bin'' = Some (File d)
             \<and> sign_prehashed_sha384 (demo_lib True) k d (entropy ?p) = Inl m)"
    by blast
  have b2: "by_file ?b" and b3: "input ?b = Some ''digest.bin''"
    by simp_all
  have "files ?p ?man = None"
    by (simp add: demo_proc_def demo_files_def)
  then have b4: "files ?p ''digest.bin'' = None \<or> files ?p ''digest.bin'' = Some Dir
       \<or> files ?p ?man = None \<or> files ?p ?man = Some Dir
       \<or> (\<exists>pem m. files ?p ?man = Some (File pem)
             \<and> load_pem_private_key (demo_lib True) pem = Inl m)
       \<or> (\<exists>pem k d m. files ?p ?man = Some (File pem)
             \<and> load_pem_private_key (demo_lib True) pem = Inr k
             \<and> files ?p ''digest.bin'' = Some (File d)
             \<and> sign_prehashed_sha384 (demo_lib True) k d (entropy ?p) = Inl m)"
    by blast
  have f: "files ?p = demo_files"
    by (simp add: demo_proc_def)
  show ?thesis
    using file_mode_error_keeps_files [OF select_key_fw a2 a3 a4]
      file_mode_error_keeps_files [OF select_key_man b2 b3 b4]
    unfolding fw_file_def f by blast
qed

subsection \<open>Standard-input mode\<close>



text \<open>
  Claim C7. In standard-input mode, when the first line, stripped, is non-empty but not
  valid hexadecimal (odd length or a character that is not a hexadecimal digit),
  \<open>unhexlify\<close> raises, nobody catches it, and the run ends with status 1 with the
  traceback on standard error and nothing written to standard output.
\<close>

theorem malformed_hex_exits_1:
  assumes "select_key (key a) = Some kp" and "\<not> by_file a"
    and "readline (stdin p) = (line, rest)"
    and "strip line \<noteq> []" and "\<not> valid_hex (strip line)"
  shows "\<exists>e. unhexlify (strip line) = Inl e \<and>
    run lib (Namespace a) p = (1, p\<lparr>stdin := rest, stderr := stderr p @ [Traceback e]\<rparr>)"
proof -
  from unhexlify_invalid [OF assms(5)] obtain e where e: "unhexlify (strip line) = Inl e"
    by blast
  show ?thesis
    using assms(4) e by (simp add: run_stdin_mode [OF assms(1-3)])
qed

theorem malformed_hex_exits_1_witness:
  "run (demo_lib True) fw_stdin (demo_proc (''abc'' @ [newline])) =
     (1, (demo_proc [])\<lparr>stderr := [Traceback (Binascii_Error ''Odd-length string'')]\<rparr>)"
proof -
  let ?a = "\<lparr>key = ''fw'', by_file = False, input = None\<rparr>"
  let ?p = "demo_proc (''abc'' @ [newline])"
  have 2: "\<not> by_file ?a"
    by simp
  have 3: "readline (stdin ?p) = (''abc'' @ [newline], [])"
    by (simp add: readline_def demo_proc_def newline_def)
  have s: "strip (''abc'' @ [newline]) = ''abc''"
    by (simp add: strip_def isspace_def newline_def)
  have 4: "strip (''abc'' @ [newline]) \<noteq> []"
    unfolding s by simp
  have 5: "\<not> valid_hex (strip (''abc'' @ [newline]))"
    unfolding s by (simp add: valid_hex_def)
  have u: "unhexlify ''abc'' = Inl (Binascii_Error ''Odd-length string'')"
    by (simp add: unhexlify_def)
  from malformed_hex_exits_1 [OF select_key_fw 2 3 4 5, of "demo_lib True"]
  obtain e where d: "unhexlify (strip (''abc'' @ [newline])) = Inl e"
    and r: "run (demo_lib True) (Namespace ?a) ?p =
              (1, ?p\<lparr>stdin := [], stderr := stderr ?p @ [Traceback e]\<rparr>)"
    by blast
  from d have e: "e = Binascii_Error ''Odd-length string''"
    unfolding s u by simp
  show ?thesis
    unfolding fw_stdin_def r e by (simp add: demo_proc_def)
qed



subsection \<open>Key selection and validation errors\<close>

text \<open>
  Claim C4. \<open>--key fw\<close> selects \<open>key/ast2700a1-default/own-fw-ecc-prvk.pem\<close> and
  \<open>--key man\<close> selects \<open>key/ast2700a1-default/own-man-ecc-prvk.pem\<close>: \<open>main\<close> goes
  on with that path as the key file. Any other value ends the run with status 1 after
  \<open>Unknown key type: ...\<close> on standard error.
\<close>

theorem key_selects_path:
  "(key a = ''fw'' \<longrightarrow>
      select_key (key a) = Some ''key/ast2700a1-default/own-fw-ecc-prvk.pem'' \<and>
      main lib (Namespace a) p =
        choose_flow lib ''key/ast2700a1-default/own-fw-ecc-prvk.pem'' a p)
   \<and> (key a = ''man'' \<longrightarrow>
      select_key (key a) = Some ''key/ast2700a1-default/own-man-ecc-prvk.pem'' \<and>
      main lib (Namespace a) p =
        choose_flow lib ''key/ast2700a1-default/own-man-ecc-prvk.pem'' a p)
   \<and> (key a \<noteq> ''fw'' \<and> key a \<noteq> ''man'' \<longrightarrow>
      select_key (key a) = None \<and>
      run lib (Namespace a) p =
        (1, p\<lparr>stderr := stderr p @ [Text (''Unknown key type: '' @ key a @ [newline])]\<rparr>))"
proof (intro conjI impI)
  assume "key a = ''fw''"
  then show "select_key (key a) = Some ''key/ast2700a1-default/own-fw-ecc-prvk.pem''"
    by (simp add: select_key_def)
  then show "main lib (Namespace a) p =
      choose_flow lib ''key/ast2700a1-default/own-fw-ecc-prvk.pem'' a p"
    by (simp add: main_def)
next
  assume "key a = ''man''"
  then show "select_key (key a) = Some ''key/ast2700a1-default/own-man-ecc-prvk.pem''"
    by (simp add: select_key_def)
  then show "main lib (Namespace a) p =
      choose_flow lib ''key/ast2700a1-default/own-man-ecc-prvk.pem'' a p"
    by (simp add: main_def)
next
  assume "key a \<noteq> ''fw'' \<and> key a \<noteq> ''man''"
  then show none: "select_key (key a) = None"
    by (simp add: select_key_def)
  show "run lib (Namespace a) p =
      (1, p\<lparr>stderr := stderr p @ [Text (''Unknown key type: '' @ key a @ [newline])]\<rparr>)"
    by (rule run_unknown_key [OF none])
qed

theorem key_selects_path_witness:
  "main (demo_lib True) fw_stdin (demo_proc []) =
     choose_flow (demo_lib True) ''key/ast2700a1-default/own-fw-ecc-prvk.pem''
       \<lparr>key = ''fw'', by_file = False, input = None\<rparr> (demo_proc [])
   \<and> main (demo_lib True)
       (Namespace \<lparr>key = ''man'', by_file = True, input = Some ''digest.bin''\<rparr>) (demo_proc []) =
     choose_flow (demo_lib True) ''key/ast2700a1-default/own-man-ecc-prvk.pem''
       \<lparr>key = ''man'', by_file = True, input = Some ''digest.bin''\<rparr> (demo_proc [])
   \<and> run (demo_lib True) (Namespace \<lparr>key = ''oem'', by_file = False, input = None\<rparr>)
       (demo_proc []) =
     (1, (demo_proc [])\<lparr>stderr := [Text (''Unknown key type: oem'' @ [newline])]\<rparr>)
   \<and> run (demo_lib True)
       (Namespace \<lparr>key = ''man'', by_file = True, input = Some ''digest.bin''\<rparr>) (demo_proc []) =
     (1, (demo_proc [])
         \<lparr>stderr := [Text (''Using input file: digest.bin'' @ [newline]),
                     Text (''[FILE MODE] Signing digest from file: digest.bin'' @ [newline]),
                     Traceback (FileNotFoundError
                       ''key/ast2700a1-default/own-man-ecc-prvk.pem'')]\<rparr>)"
proof (intro conjI)
  let ?a = "\<lparr>key = ''fw'', by_file = False, input = None\<rparr>"
  have "key ?a = ''fw''" by simp
  with key_selects_path [where a = ?a and lib = "demo_lib True" and p = "demo_proc []"]
  show "main (demo_lib True) fw_stdin (demo_proc []) =
     choose_flow (demo_lib True) ''key/ast2700a1-default/own-fw-ecc-prvk.pem'' ?a (demo_proc [])"
    unfolding fw_stdin_def by blast
next
  let ?a = "\<lparr>key = ''man'', by_file = True, input = Some ''digest.bin''\<rparr>"
  have "key ?a = ''man''" by simp
  with key_selects_path [where a = ?a and lib = "demo_lib True" and p = "demo_proc []"]
  show "main (demo_lib True) (Namespace ?a) (demo_proc []) =
     choose_flow (demo_lib True) ''key/ast2700a1-default/own-man-ecc-prvk.pem'' ?a (demo_proc [])"
    by blast
next
  let ?a = "\<lparr>key = ''oem'', by_file = False, input = None\<rparr>"
  have "key ?a \<noteq> ''fw'' \<and> key ?a \<noteq> ''man''" by simp
  with key_selects_path [where a = ?a and lib = "demo_lib True" and p = "demo_proc []"]
  have "run (demo_lib True) (Namespace ?a) (demo_proc []) =
        (1, (demo_proc [])\<lparr>stderr := stderr (demo_proc []) @
              [Text (''Unknown key type: '' @ key ?a @ [newline])]\<rparr>)"
    by blast
  then show "run (demo_lib True) (Namespace ?a) (demo_proc []) =
     (1, (demo_proc [])\<lparr>stderr := [Text (''Unknown key type: oem'' @ [newline])]\<rparr>)"
    by (simp add: demo_proc_def)
next
  show "run (demo_lib True)
       (Namespace \<lparr>key = ''man'', by_file = True, input = Some ''digest.bin''\<rparr>) (demo_proc []) =
     (1, (demo_proc [])
         \<lparr>stderr := [Text (''Using input file: digest.bin'' @ [newline]),
                     Text (''[FILE MODE] Signing digest from file: digest.bin'' @ [newline]),
                     Traceback (FileNotFoundError
                       ''key/ast2700a1-default/own-man-ecc-prvk.pem'')]\<rparr>)"
    by (rule demo_run_man_digest)
qed

text \<open>
  Claim C5. Each of the four validation errors ends the run with status 1 after one
  error message on standard error, with standard output and the file system as they
  were and without any call to the library (the outcome does not mention it):
  an empty first line on standard input, an input file that does not exist in file
  mode, an unknown \<open>--key\<close> value, and \<open>--by-file\<close> without \<open>--input\<close>.
\<close>

theorem validation_errors_exit_1:
  "(select_key (key a) = Some kp \<and> \<not> by_file a \<and> readline (stdin p) = (line, rest)
      \<and> strip line = [] \<longrightarrow>
    run lib (Namespace a) p =
      (1, p\<lparr>stdin := rest,
            stderr := stderr p @ [Text (''Error: No digest provided via stdin'' @ [newline])]\<rparr>))
   \<and> (select_key (key a) = Some kp \<and> by_file a \<and> input a = Some ip \<and> ip \<noteq> []
      \<and> files p ip = None \<longrightarrow>
    run lib (Namespace a) p =
      (1, p\<lparr>stderr := stderr p @
            [Text (''Using input file: '' @ ip @ [newline]),
             Text (''Error: input file '' @ [apostrophe] @ ip @ [apostrophe]
                   @ '' does not exist'' @ [newline])]\<rparr>))
   \<and> (select_key (key a) = None \<longrightarrow>
    run lib (Namespace a) p =
      (1, p\<lparr>stderr := stderr p @ [Text (''Unknown key type: '' @ key a @ [newline])]\<rparr>))
   \<and> (select_key (key a) = Some kp \<and> by_file a \<and> (input a = None \<or> input a = Some [])
      \<longrightarrow>
    run lib (Namespace a) p =
      (1, p\<lparr>stderr := stderr p @
            [Text (''Error: --input <path> is required when using --by-file'' @ [newline])]\<rparr>))"
proof (intro conjI impI)
  assume "select_key (key a) = Some kp \<and> \<not> by_file a \<and> readline (stdin p) = (line, rest)
      \<and> strip line = []"
  then show "run lib (Namespace a) p =
      (1, p\<lparr>stdin := rest,
            stderr := stderr p @ [Text (''Error: No digest provided via stdin'' @ [newline])]\<rparr>)"
    by (simp add: run_stdin_mode)
next
  assume "select_key (key a) = Some kp \<and> by_file a \<and> input a = Some ip \<and> ip \<noteq> []
      \<and> files p ip = None"
  then show "run lib (Namespace a) p =
      (1, p\<lparr>stderr := stderr p @
            [Text (''Using input file: '' @ ip @ [newline]),
             Text (''Error: input file '' @ [apostrophe] @ ip @ [apostrophe]
                   @ '' does not exist'' @ [newline])]\<rparr>)"
    by (simp add: run_file_mode)
next
  assume "select_key (key a) = None"
  then show "run lib (Namespace a) p =
      (1, p\<lparr>stderr := stderr p @ [Text (''Unknown key type: '' @ key a @ [newline])]\<rparr>)"
    by (rule run_unknown_key)
next
  assume "select_key (key a) = Some kp \<and> by_file a \<and> (input a = None \<or> input a = Some [])"
  then show "run lib (Namespace a) p =
      (1, p\<lparr>stderr := stderr p @
            [Text (''Error: --input <path> is required when using --by-file'' @ [newline])]\<rparr>)"
    by (simp add: run_no_input)
qed

theorem validation_errors_exit_1_witness:
  "run (demo_lib True) fw_stdin (demo_proc (''  '' @ newline # ''more'')) =
     (1, (demo_proc ''more'')
           \<lparr>stderr := [Text (''Error: No digest provided via stdin'' @ [newline])]\<rparr>)
   \<and> run (demo_lib True) (fw_file ''missing.bin'') (demo_proc []) =
     (1, (demo_proc [])
           \<lparr>stderr := [Text (''Using input file: missing.bin'' @ [newline]),
                       Text (''Error: input file '' @ [apostrophe] @ ''missing.bin''
                             @ [apostrophe] @ '' does not exist'' @ [newline])]\<rparr>)
   \<and> run (demo_lib True) (Namespace \<lparr>key = ''oem'', by_file = False, input = None\<rparr>)
         (demo_proc []) =
     (1, (demo_proc [])\<lparr>stderr := [Text (''Unknown key type: oem'' @ [newline])]\<rparr>)
   \<and> run (demo_lib True) (Namespace \<lparr>key = ''man'', by_file = True, input = None\<rparr>)
         (demo_proc []) =
     (1, (demo_proc [])
           \<lparr>stderr := [Text (''Error: --input <path> is required when using --by-file''
                             @ [newline])]\<rparr>)"
proof (intro conjI)
  let ?a = "\<lparr>key = ''fw'', by_file = False, input = None\<rparr>"
  let ?p = "demo_proc (''  '' @ newline # ''more'')"
  have "select_key (key ?a) = Some ''key/ast2700a1-default/own-fw-ecc-prvk.pem''
        \<and> \<not> by_file ?a \<and> readline (stdin ?p) = (''  '' @ [newline], ''more'')
        \<and> strip (''  '' @ [newline]) = []"
    by (simp add: select_key_def readline_def demo_proc_def newline_def strip_def isspace_def)
  with validation_errors_exit_1 [where a = ?a and p = ?p and line = "''  '' @ [newline]"
      and rest = "''more''" and lib = "demo_lib True"]
  have "run (demo_lib True) (Namespace ?a) ?p =
      (1, ?p\<lparr>stdin := ''more'',
            stderr := stderr ?p @ [Text (''Error: No digest provided via stdin'' @ [newline])]\<rparr>)"
    by blast
  then show "run (demo_lib True) fw_stdin ?p =
     (1, (demo_proc ''more'')
           \<lparr>stderr := [Text (''Error: No digest provided via stdin'' @ [newline])]\<rparr>)"
    unfolding fw_stdin_def by (simp add: demo_proc_def)
next
  let ?a = "\<lparr>key = ''fw'', by_file = True, input = Some ''missing.bin''\<rparr>"
  let ?p = "demo_proc []"
  have "select_key (key ?a) = Some ''key/ast2700a1-default/own-fw-ecc-prvk.pem''
        \<and> by_file ?a \<and> input ?a = Some ''missing.bin'' \<and> ''missing.bin'' \<noteq> []
        \<and> files ?p ''missing.bin'' = None"
    by (simp add: select_key_def demo_proc_def demo_files_def)
  with validation_errors_exit_1 [where a = ?a and p = ?p and ip = "''missing.bin''"
      and lib = "demo_lib True"]
  have "run (demo_lib True) (Namespace ?a) ?p =
      (1, ?p\<lparr>stderr := stderr ?p @
            [Text (''Using input file: '' @ ''missing.bin'' @ [newline]),
             Text (''Error: input file '' @ [apostrophe] @ ''missing.bin'' @ [apostrophe]
                   @ '' does not exist'' @ [newline])]\<rparr>)"
    by blast
  then show "run (demo_lib True) (fw_file ''missing.bin'') ?p =
     (1, ?p\<lparr>stderr := [Text (''Using input file: missing.bin'' @ [newline]),
                       Text (''Error: input file '' @ [apostrophe] @ ''missing.bin''
                             @ [apostrophe] @ '' does not exist'' @ [newline])]\<rparr>)"
    unfolding fw_file_def by (simp add: demo_proc_def)
next
  let ?a = "\<lparr>key = ''oem'', by_file = False, input = None\<rparr>"
  let ?p = "demo_proc []"
  have "select_key (key ?a) = None"
    by (simp add: select_key_def)
  with validation_errors_exit_1 [where a = ?a and p = ?p and lib = "demo_lib True"]
  have "run (demo_lib True) (Namespace ?a) ?p =
      (1, ?p\<lparr>stderr := stderr ?p @ [Text (''Unknown key type: '' @ key ?a @ [newline])]\<rparr>)"
    by blast
  then show "run (demo_lib True) (Namespace ?a) ?p =
     (1, ?p\<lparr>stderr := [Text (''Unknown key type: oem'' @ [newline])]\<rparr>)"
    by (simp add: demo_proc_def)
next
  let ?a = "\<lparr>key = ''man'', by_file = True, input = None\<rparr>"
  let ?p = "demo_proc []"
  have "select_key (key ?a) = Some ''key/ast2700a1-default/own-man-ecc-prvk.pem''
        \<and> by_file ?a \<and> (input ?a = None \<or> input ?a = Some [])"
    by (simp add: select_key_def)
  with validation_errors_exit_1 [where a = ?a and p = ?p and lib = "demo_lib True"]
  have "run (demo_lib True) (Namespace ?a) ?p =
      (1, ?p\<lparr>stderr := stderr ?p @
            [Text (''Error: --input <path> is required when using --by-file'' @ [newline])]\<rparr>)"
    by blast
  then show "run (demo_lib True) (Namespace ?a) ?p =
     (1, ?p\<lparr>stderr := [Text (''Error: --input <path> is required when using --by-file''
                             @ [newline])]\<rparr>)"
    by (simp add: demo_proc_def)
qed

subsection \<open>Exit status of a failing run\<close>




subsection \<open>The length of the digest\<close>

text \<open>
  Claim C9, as stated: the program never checks the digest, so in standard-input mode
  a hexadecimal string of any even length reaches the library. It fails for length 0:
  the empty string is valid hexadecimal and decodes to the empty digest, which the
  permissive stand-in library would sign, but the program's own check for an empty
  line ends the run with status 1 before any library call.
\<close>

theorem empty_stdin_digest_counterexample:
  "valid_hex []
   \<and> unhexlify [] = Inr []
   \<and> sign_digest (demo_lib False) demo_files 7 []
       ''key/ast2700a1-default/own-fw-ecc-prvk.pem'' = Inr [0x30, 2, 7]
   \<and> run (demo_lib False) fw_stdin (demo_proc [newline]) =
       (1, (demo_proc [])
             \<lparr>stderr := [Text (''Error: No digest provided via stdin'' @ [newline])]\<rparr>)"
proof (intro conjI)
  show "valid_hex []"
    by (simp add: valid_hex_def)
  show "unhexlify [] = Inr []"
    by (simp add: unhexlify_def)
  show "sign_digest (demo_lib False) demo_files 7 []
       ''key/ast2700a1-default/own-fw-ecc-prvk.pem'' = Inr [0x30, 2, 7]"
    by (simp add: sign_digest_def open_rb_def demo_lib_def demo_files_def)
  have 2: "\<not> by_file \<lparr>key = ''fw'', by_file = False, input = None\<rparr>"
    by simp
  have 3: "readline (stdin (demo_proc [newline])) = ([newline], [])"
    by (simp add: readline_def demo_proc_def)
  have s: "strip [newline] = []"
    by (simp add: strip_def isspace_def newline_def)
  show "run (demo_lib False) fw_stdin (demo_proc [newline]) =
       (1, (demo_proc [])
             \<lparr>stderr := [Text (''Error: No digest provided via stdin'' @ [newline])]\<rparr>)"
    unfolding fw_stdin_def run_stdin_mode [OF select_key_fw 2 3] s
    by (simp add: demo_proc_def)
qed

text \<open>
  Claim C9, amended. Once the key is loaded, the outcome is decided by the library's
  signing call on the digest and by nothing else, whatever the length of the digest:
  in file mode for a file of any size (zero included), in standard-input mode for a
  decoded line of any length other than zero. A refusal by the library is an uncaught
  exception (traceback, status 1); a signature of a digest of any length is written out.
\<close>

theorem digest_length_left_to_library:
  "(select_key (key a) = Some kp \<and> by_file a \<and> input a = Some ip \<and> ip \<noteq> []
      \<and> files p ip = Some (File d)
      \<and> files p kp = Some (File pem) \<and> load_pem_private_key lib pem = Inr k \<longrightarrow>
    run lib (Namespace a) p =
      (case sign_prehashed_sha384 lib k d (entropy p) of
         Inl m \<Rightarrow>
           (1, p\<lparr>stderr := stderr p @
                 [Text (''Using input file: '' @ ip @ [newline]),
                  Text (''[FILE MODE] Signing digest from file: '' @ ip @ [newline]),
                  Traceback (LibraryError m)]\<rparr>)
       | Inr sg \<Rightarrow>
           (0, p\<lparr>files := (files p)(ip \<mapsto> File sg),
                 stderr := stderr p @
                 [Text (''Using input file: '' @ ip @ [newline]),
                  Text (''[FILE MODE] Signing digest from file: '' @ ip @ [newline]),
                  Text (''Signature written back to file: '' @ ip @ [newline])]\<rparr>)))
   \<and> (select_key (key a) = Some kp \<and> \<not> by_file a \<and> readline (stdin p) = (line, rest)
      \<and> strip line \<noteq> [] \<and> unhexlify (strip line) = Inr d
      \<and> files p kp = Some (File pem) \<and> load_pem_private_key lib pem = Inr k \<longrightarrow>
    run lib (Namespace a) p =
      (case sign_prehashed_sha384 lib k d (entropy p) of
         Inl m \<Rightarrow>
           (1, p\<lparr>stdin := rest,
                 stderr := stderr p @
                   [Text (''[STDIN MODE] Signing digest:'' @ [newline] @ '' ''
                          @ strip line @ [newline]),
                    Traceback (LibraryError m)]\<rparr>)
       | Inr sg \<Rightarrow>
           (0, p\<lparr>stdin := rest,
                 stdout := stdout p @ [Text (hexlify sg @ [newline])],
                 stderr := stderr p @
                   [Text (''[STDIN MODE] Signing digest:'' @ [newline] @ '' ''
                          @ strip line @ [newline]),
                    Text (''Signature generated (DER hex): '' @ hexlify sg @ [newline])]\<rparr>)))"
proof (intro conjI impI)
  assume h: "select_key (key a) = Some kp \<and> by_file a \<and> input a = Some ip \<and> ip \<noteq> []
      \<and> files p ip = Some (File d)
      \<and> files p kp = Some (File pem) \<and> load_pem_private_key lib pem = Inr k"
  then have sd: "sign_digest lib (files p) (entropy p) d kp =
      (case sign_prehashed_sha384 lib k d (entropy p) of
         Inl m \<Rightarrow> Inl (LibraryError m) | Inr sg \<Rightarrow> Inr sg)"
    by (simp add: sign_digest_loaded)
  from h have "select_key (key a) = Some kp" "by_file a" "input a = Some ip" "ip \<noteq> []"
    by simp_all
  note rf = run_file_mode [OF this, of lib p]
  show "run lib (Namespace a) p =
      (case sign_prehashed_sha384 lib k d (entropy p) of
         Inl m \<Rightarrow>
           (1, p\<lparr>stderr := stderr p @
                 [Text (''Using input file: '' @ ip @ [newline]),
                  Text (''[FILE MODE] Signing digest from file: '' @ ip @ [newline]),
                  Traceback (LibraryError m)]\<rparr>)
       | Inr sg \<Rightarrow>
           (0, p\<lparr>files := (files p)(ip \<mapsto> File sg),
                 stderr := stderr p @
                 [Text (''Using input file: '' @ ip @ [newline]),
                  Text (''[FILE MODE] Signing digest from file: '' @ ip @ [newline]),
                  Text (''Signature written back to file: '' @ ip @ [newline])]\<rparr>))"
    using h by (simp add: rf sd split: sum.splits)
next
  assume h: "select_key (key a) = Some kp \<and> \<not> by_file a \<and> readline (stdin p) = (line, rest)
      \<and> strip line \<noteq> [] \<and> unhexlify (strip line) = Inr d
      \<and> files p kp = Some (File pem) \<and> load_pem_private_key lib pem = Inr k"
  then have sd: "sign_digest lib (files p) (entropy p) d kp =
      (case sign_prehashed_sha384 lib k d (entropy p) of
         Inl m \<Rightarrow> Inl (LibraryError m) | Inr sg \<Rightarrow> Inr sg)"
    by (simp add: sign_digest_loaded)
  from h have "select_key (key a) = Some kp" "\<not> by_file a" "readline (stdin p) = (line, rest)"
    by simp_all
  note rs = run_stdin_mode [OF this, of lib]
  show "run lib (Namespace a) p =
      (case sign_prehashed_sha384 lib k d (entropy p) of
         Inl m \<Rightarrow>
           (1, p\<lparr>stdin := rest,
                 stderr := stderr p @
                   [Text (''[STDIN MODE] Signing digest:'' @ [newline] @ '' ''
                          @ strip line @ [newline]),
                    Traceback (LibraryError m)]\<rparr>)
       | Inr sg \<Rightarrow>
           (0, p\<lparr>stdin := rest,
                 stdout := stdout p @ [Text (hexlify sg @ [newline])],
                 stderr := stderr p @
                   [Text (''[STDIN MODE] Signing digest:'' @ [newline] @ '' ''
                          @ strip line @ [newline]),
                    Text (''Signature generated (DER hex): '' @ hexlify sg @ [newline])]\<rparr>))"
    using h by (simp add: rs sd split: sum.splits)
qed

theorem digest_length_left_to_library_witness:
  "run (demo_lib True) (fw_file ''short.bin'') (demo_proc []) =
     (1, (demo_proc [])
           \<lparr>stderr := [Text (''Using input file: short.bin'' @ [newline]),
                       Text (''[FILE MODE] Signing digest from file: short.bin'' @ [newline]),
                       Traceback (LibraryError
                         ''The provided data must be the same length as the digest size.'')]\<rparr>)
   \<and> run (demo_lib False) (fw_file ''empty.bin'') (demo_proc []) =
     (0, (demo_proc [])
           \<lparr>files := demo_files(''empty.bin'' \<mapsto> File [0x30, 2, 7]),
            stderr := [Text (''Using input file: empty.bin'' @ [newline]),
                       Text (''[FILE MODE] Signing digest from file: empty.bin'' @ [newline]),
                       Text (''Signature written back to file: empty.bin'' @ [newline])]\<rparr>)
   \<and> run (demo_lib True) fw_stdin (demo_proc (''abcd'' @ [newline])) =
     (1, (demo_proc [])
           \<lparr>stderr := [Text (''[STDIN MODE] Signing digest:'' @ [newline] @ '' abcd'' @ [newline]),
                       Traceback (LibraryError
                         ''The provided data must be the same length as the digest size.'')]\<rparr>)"
proof (intro conjI)
  let ?a = "\<lparr>key = ''fw'', by_file = True, input = Some ''short.bin''\<rparr>"
  let ?p = "demo_proc []"
  let ?fw = "''key/ast2700a1-default/own-fw-ecc-prvk.pem''"
  have "select_key (key ?a) = Some ?fw \<and> by_file ?a \<and> input ?a = Some ''short.bin''
        \<and> ''short.bin'' \<noteq> [] \<and> files ?p ''short.bin'' = Some (File [1, 2, 3])
        \<and> files ?p ?fw = Some (File [0x2D, 0x2D])
        \<and> load_pem_private_key (demo_lib True) [0x2D, 0x2D] = Inr 2"
    by (simp add: select_key_def demo_proc_def demo_files_def demo_lib_def)
  with digest_length_left_to_library [where a = ?a and p = ?p and kp = ?fw
      and ip = "''short.bin''" and d = "[1, 2, 3]" and pem = "[0x2D, 0x2D]" and k = 2
      and lib = "demo_lib True"]
  have "run (demo_lib True) (Namespace ?a) ?p =
      (case sign_prehashed_sha384 (demo_lib True) 2 [1, 2, 3] (entropy ?p) of
         Inl m \<Rightarrow>
           (1, ?p\<lparr>stderr := stderr ?p @
                 [Text (''Using input file: '' @ ''short.bin'' @ [newline]),
                  Text (''[FILE MODE] Signing digest from file: '' @ ''short.bin'' @ [newline]),
                  Traceback (LibraryError m)]\<rparr>)
       | Inr sg \<Rightarrow>
           (0, ?p\<lparr>files := (files ?p)(''short.bin'' \<mapsto> File sg),
                 stderr := stderr ?p @
                 [Text (''Using input file: '' @ ''short.bin'' @ [newline]),
                  Text (''[FILE MODE] Signing digest from file: '' @ ''short.bin'' @ [newline]),
                  Text (''Signature written back to file: '' @ ''short.bin'' @ [newline])]\<rparr>))"
    by blast
  then show "run (demo_lib True) (fw_file ''short.bin'') ?p =
     (1, ?p\<lparr>stderr := [Text (''Using input file: short.bin'' @ [newline]),
                       Text (''[FILE MODE] Signing digest from file: short.bin'' @ [newline]),
                       Traceback (LibraryError
                         ''The provided data must be the same length as the digest size.'')]\<rparr>)"
    unfolding fw_file_def by (simp add: demo_lib_def demo_proc_def)
next
  let ?a = "\<lparr>key = ''fw'', by_file = True, input = Some ''empty.bin''\<rparr>"
  let ?p = "demo_proc []"
  let ?fw = "''key/ast2700a1-default/own-fw-ecc-prvk.pem''"
  have "select_key (key ?a) = Some ?fw \<and> by_file ?a \<and> input ?a = Some ''empty.bin''
        \<and> ''empty.bin'' \<noteq> [] \<and> files ?p ''empty.bin'' = Some (File [])
        \<and> files ?p ?fw = Some (File [0x2D, 0x2D])
        \<and> load_pem_private_key (demo_lib False) [0x2D, 0x2D] = Inr 2"
    by (simp add: select_key_def demo_proc_def demo_files_def demo_lib_def)
  with digest_length_left_to_library [where a = ?a and p = ?p and kp = ?fw
      and ip = "''empty.bin''" and d = "[]" and pem = "[0x2D, 0x2D]" and k = 2
      and lib = "demo_lib False"]
  have "run (demo_lib False) (Namespace ?a) ?p =
      (case sign_prehashed_sha384 (demo_lib False) 2 [] (entropy ?p) of
         Inl m \<Rightarrow>
           (1, ?p\<lparr>stderr := stderr ?p @
                 [Text (''Using input file: '' @ ''empty.bin'' @ [newline]),
                  Text (''[FILE MODE] Signing digest from file: '' @ ''empty.bin'' @ [newline]),
                  Traceback (LibraryError m)]\<rparr>)
       | Inr sg \<Rightarrow>
           (0, ?p\<lparr>files := (files ?p)(''empty.bin'' \<mapsto> File sg),
                 stderr := stderr ?p @
                 [Text (''Using input file: '' @ ''empty.bin'' @ [newline]),
                  Text (''[FILE MODE] Signing digest from file: '' @ ''empty.bin'' @ [newline]),
                  Text (''Signature written back to file: '' @ ''empty.bin'' @ [newline])]\<rparr>))"
    by blast
  then show "run (demo_lib False) (fw_file ''empty.bin'') ?p =
     (0, ?p\<lparr>files := demo_files(''empty.bin'' \<mapsto> File [0x30, 2, 7]),
            stderr := [Text (''Using input file: empty.bin'' @ [newline]),
                       Text (''[FILE MODE] Signing digest from file: empty.bin'' @ [newline]),
                       Text (''Signature written back to file: empty.bin'' @ [newline])]\<rparr>)"
    unfolding fw_file_def by (simp add: demo_lib_def demo_proc_def)
next
  let ?a = "\<lparr>key = ''fw'', by_file = False, input = None\<rparr>"
  let ?p = "demo_proc (''abcd'' @ [newline])"
  let ?fw = "''key/ast2700a1-default/own-fw-ecc-prvk.pem''"
  have s: "strip (''abcd'' @ [newline]) = ''abcd''"
    by (simp add: strip_def isspace_def newline_def)
  have u: "unhexlify ''abcd'' = Inr [0xab, 0xcd]"
    by (simp add: unhexlify_def digit_value_def)
  have "select_key (key ?a) = Some ?fw \<and> \<not> by_file ?a
        \<and> readline (stdin ?p) = (''abcd'' @ [newline], [])
        \<and> files ?p ?fw = Some (File [0x2D, 0x2D])
        \<and> load_pem_private_key (demo_lib True) [0x2D, 0x2D] = Inr 2"
    by (simp add: select_key_def readline_def newline_def demo_proc_def demo_files_def
        demo_lib_def)
  moreover have "strip (''abcd'' @ [newline]) \<noteq> []
        \<and> unhexlify (strip (''abcd'' @ [newline])) = Inr [0xab, 0xcd]"
    unfolding s u by simp
  ultimately have "run (demo_lib True) (Namespace ?a) ?p =
      (case sign_prehashed_sha384 (demo_lib True) 2 [0xab, 0xcd] (entropy ?p) of
         Inl m \<Rightarrow>
           (1, ?p\<lparr>stdin := [],
                 stderr := stderr ?p @
                   [Text (''[STDIN MODE] Signing digest:'' @ [newline] @ '' ''
                          @ strip (''abcd'' @ [newline]) @ [newline]),
                    Traceback (LibraryError m)]\<rparr>)
       | Inr sg \<Rightarrow>
           (0, ?p\<lparr>stdin := [],
                 stdout := stdout ?p @ [Text (hexlify sg @ [newline])],
                 stderr := stderr ?p @
                   [Text (''[STDIN MODE] Signing digest:'' @ [newline] @ '' ''
                          @ strip (''abcd'' @ [newline]) @ [newline]),
                    Text (''Signature generated (DER hex): '' @ hexlify sg @ [newline])]\<rparr>))"
    using digest_length_left_to_library [where a = ?a and p = ?p and kp = ?fw
      and line = "''abcd'' @ [newline]" and rest = "[]" and d = "[0xab, 0xcd]"
      and pem = "[0x2D, 0x2D]" and k = 2 and lib = "demo_lib True"]
    by blast
  then show "run (demo_lib True) fw_stdin ?p =
     (1, (demo_proc [])
           \<lparr>stderr := [Text (''[STDIN MODE] Signing digest:'' @ [newline] @ '' abcd'' @ [newline]),
                       Traceback (LibraryError
                         ''The provided data must be the same length as the digest size.'')]\<rparr>)"
    unfolding fw_stdin_def s by (simp add: demo_lib_def demo_proc_def)
qed

end
